theory Spec2Isabelle
  imports Main
begin

section \<open>JavaScript values and strings\<close>

text \<open>
  Values that cross the scanner's interface: arguments of the Action API and the results
  of actions. The Numbers of the model are the safe integers, those of magnitude below
  \<open>2^53\<close>, each of which is a Number and prints in decimal. \<open>JSymbol\<close> is a Symbol, and
  \<open>JObject c\<close> an object whose conversion to a string, in a concatenation, yields \<open>c\<close>: a
  string, or the exception its \<open>toString\<close> raises (and has no other effect). Strings
  are lists of code units; the scanner only compares, slices and concatenates them.
\<close>

datatype error = TypeError | Error string

typedef safe_integer = "{n :: int. - (2 ^ 53) < n \<and> n < 2 ^ 53}"
  by (rule exI [of _ 0]) simp

datatype jsval =
  JUndefined | JNull | JBool bool | JNum safe_integer | JStr string | JSymbol
  | JObject "error + string"

fun digits :: "nat \<Rightarrow> string" where
  "digits n =
     (if n < 10 then [''0123456789'' ! n] else digits (n div 10) @ [''0123456789'' ! (n mod 10)])"

text \<open>
  String conversion, as \<open>+\<close> applies it to an operand beside a string: it raises a
  \<open>TypeError\<close> for a Symbol, and what the object's own conversion raises for an object.
\<close>

fun js_to_string :: "jsval \<Rightarrow> error + string" where
  "js_to_string JUndefined = Inr ''undefined''"
| "js_to_string JNull = Inr ''null''"
| "js_to_string (JBool b) = Inr (if b then ''true'' else ''false'')"
| "js_to_string (JNum n) =
     Inr (if Rep_safe_integer n < 0 then CHR ''-'' # digits (nat (- Rep_safe_integer n))
          else digits (nat (Rep_safe_integer n)))"
| "js_to_string (JStr s) = Inr s"
| "js_to_string JSymbol = Inl TypeError"
| "js_to_string (JObject c) = c"

text \<open>Truthiness, as \<open>!!v\<close> computes it.\<close>

fun truthy :: "jsval \<Rightarrow> bool" where
  "truthy JUndefined = False"
| "truthy JNull = False"
| "truthy (JBool b) = b"
| "truthy (JNum n) = (Rep_safe_integer n \<noteq> 0)"
| "truthy (JStr s) = (s \<noteq> [])"
| "truthy JSymbol = True"
| "truthy (JObject c) = True"

text \<open>
  \<open>s.substr(start, length)\<close>: a negative start counts from the end, the start is clamped
  to the string, a missing length means the rest and a negative one means nothing.
\<close>

definition js_substr :: "string \<Rightarrow> int \<Rightarrow> int option \<Rightarrow> string" where
  "js_substr s start len =
     (let size = int (length s);
          st = (if start < 0 then max (size + start) 0 else min start size);
          n = (case len of None \<Rightarrow> size - st | Some l \<Rightarrow> min (max l 0) (size - st))
      in take (nat n) (drop (nat st) s))"

text \<open>\<open>s.charAt(i)\<close>: the empty string outside the string.\<close>

definition charAt :: "string \<Rightarrow> int \<Rightarrow> string" where
  "charAt s i = (if 0 \<le> i \<and> i < int (length s) then [s ! nat i] else [])"

text \<open>The text of a variable that may hold \<open>undefined\<close>, as \<open>+=\<close> reads it.\<close>

definition js_str :: "string option \<Rightarrow> string" where
  "js_str t = (case t of None \<Rightarrow> ''undefined'' | Some s \<Rightarrow> s)"

section \<open>The registry of start conditions\<close>

text \<open>
  \<open>this.states\<close> is a plain object \<open>{}\<close> used as a dictionary: \<open>this.states[k] = v\<close>
  stores an own property, except for the key \<open>__proto__\<close>, whose assignment replaces the
  object's prototype; \<open>this.states[k]\<close> reads an own property first and follows the
  prototype chain otherwise, where the keys of \<open>Object.prototype\<close> hold functions.
  \<open>own\<close> holds the own properties, \<open>proto\<close> the record installed as prototype (if any).
\<close>

record state_rec =
  name :: string
  exclusive :: bool

record states_obj =
  own :: "string \<rightharpoonup> state_rec"
  proto :: "state_rec option"

definition object_prototype_keys :: "string list" where
  "object_prototype_keys =
     [''constructor'', ''hasOwnProperty'', ''isPrototypeOf'', ''propertyIsEnumerable'',
      ''toLocaleString'', ''toString'', ''valueOf'', ''__defineGetter__'',
      ''__defineSetter__'', ''__lookupGetter__'', ''__lookupSetter__'', ''__proto__'']"

definition empty_object :: states_obj where
  "empty_object = \<lparr>own = Map.empty, proto = None\<rparr>"

definition states_set :: "states_obj \<Rightarrow> string \<Rightarrow> state_rec \<Rightarrow> states_obj" where
  "states_set S k v =
     (if k = ''__proto__'' then S\<lparr>proto := Some v\<rparr> else S\<lparr>own := (own S)(k \<mapsto> v)\<rparr>)"

text \<open>Whether \<open>this.states[k]\<close> is truthy, the test every registration check makes.\<close>

definition states_truthy :: "states_obj \<Rightarrow> string \<Rightarrow> bool" where
  "states_truthy S k =
     (if k = ''__proto__'' then True
      else case own S k of
        Some v \<Rightarrow> True
      | None \<Rightarrow>
          (case proto S of
             None \<Rightarrow> k \<in> set object_prototype_keys
           | Some r \<Rightarrow> (k = ''name'' \<and> name r \<noteq> []) \<or> (k = ''exclusive'' \<and> exclusive r)
               \<or> k \<in> set object_prototype_keys))"

text \<open>
  The record \<open>addState\<close> stored under a name, if any: a state is registered when there
  is one.
\<close>

definition states_get :: "states_obj \<Rightarrow> string \<Rightarrow> state_rec option" where
  "states_get S k = (if k = ''__proto__'' then proto S else own S k)"

definition registered :: "states_obj \<Rightarrow> string \<Rightarrow> bool" where
  "registered S k = (states_get S k \<noteq> None)"

section \<open>The scanner\<close>

text \<open>
  The fields of a \<open>Lexer\<close> object. \<open>text\<close> is \<open>undefined\<close> (\<open>None\<close>) after \<open>reset\<close>;
  \<open>index\<close> is a Number that the actions add to and subtract from; \<open>ruleIndex\<close> and the
  elements of \<open>rejectedRules\<close> are keys of a rule array or \<open>undefined\<close>. \<open>echoed\<close> and
  \<open>logged\<close> record what the two sinks received: the argument of each write of \<open>echo\<close>, and
  each line \<open>logAccept\<close> printed. The rule table \<open>this.rules\<close> is passed beside this record,
  since the actions it holds take the record as their argument. Three names of the source
  are keywords or constants here and carry a prime: the field \<open>text\<close> and the actions
  \<open>begin\<close> and \<open>more\<close>.
\<close>

record lexer =
  states :: states_obj
  definitions :: "string \<rightharpoonup> string"
  ignoreCase :: bool
  debugEnabled :: bool
  source :: string
  index :: int
  text' :: "string option"
  state :: string
  ruleIndex :: "nat option"
  readMore :: bool
  stateStack :: "string list"
  rejectedRules :: "nat option list"
  echoed :: "string option list"
  logged :: "string list"

type_synonym 'a js = "lexer \<Rightarrow> (error + 'a) \<times> lexer"

definition EOF :: jsval where
  "EOF = JNum (Abs_safe_integer 0)"

definition STATE_INITIAL :: string where
  "STATE_INITIAL = ''INITIAL''"

definition reset :: "lexer \<Rightarrow> lexer" where
  "reset lx = lx\<lparr>source := [], index := 0, text' := None, state := STATE_INITIAL,
     ruleIndex := None, readMore := False, stateStack := [], rejectedRules := []\<rparr>"

definition addState :: "string \<Rightarrow> jsval \<Rightarrow> jsval js" where
  "addState nm excl lx =
     (Inr JUndefined,
      lx\<lparr>states := states_set (states lx) nm \<lparr>name = nm, exclusive = truthy excl\<rparr>\<rparr>)"

definition clear :: "lexer \<Rightarrow> lexer" where
  "clear lx =
     reset (snd (addState STATE_INITIAL JUndefined
       (lx\<lparr>states := empty_object, definitions := Map.empty, ignoreCase := False,
           debugEnabled := False\<rparr>)))"

text \<open>The constructor: every field is assigned by \<open>clear\<close>; the sinks have received nothing.\<close>

definition Lexer :: lexer where
  "Lexer = clear \<lparr>states = empty_object, definitions = Map.empty, ignoreCase = False,
     debugEnabled = False, source = [], index = 0, text' = None, state = [],
     ruleIndex = None, readMore = False, stateStack = [], rejectedRules = [],
     echoed = [], logged = []\<rparr>"

definition setSource :: "string \<Rightarrow> lexer \<Rightarrow> lexer" where
  "setSource s lx = lx\<lparr>source := s, index := 0\<rparr>"

definition setIgnoreCase :: "bool \<Rightarrow> lexer \<Rightarrow> lexer" where
  "setIgnoreCase b lx = lx\<lparr>ignoreCase := b\<rparr>"

definition setDebugEnabled :: "bool \<Rightarrow> lexer \<Rightarrow> lexer" where
  "setDebugEnabled b lx = lx\<lparr>debugEnabled := b\<rparr>"

subsection \<open>The Action API\<close>

definition discard :: "jsval js" where
  "discard lx = (Inr JUndefined, lx)"

definition echo :: "jsval js" where
  "echo lx = (Inr JUndefined, lx\<lparr>echoed := echoed lx @ [text' lx]\<rparr>)"

definition not_registered :: "string \<Rightarrow> error" where
  "not_registered s = Error (''State \"'' @ s @ ''\" is not registered'')"

definition begin' :: "string option \<Rightarrow> jsval js" where
  "begin' newState lx =
     (let s = (case newState of None \<Rightarrow> STATE_INITIAL | Some s \<Rightarrow> s)
      in if \<not> states_truthy (states lx) s then (Inl (not_registered s), lx)
         else (Inr JUndefined, lx\<lparr>state := s\<rparr>))"

definition reject :: "jsval js" where
  "reject lx =
     (case text' lx of
        None \<Rightarrow> (Inl TypeError, lx)
      | Some t \<Rightarrow>
          (Inr JUndefined,
           lx\<lparr>index := index lx - int (length t),
              rejectedRules := rejectedRules lx @ [ruleIndex lx]\<rparr>))"

definition more' :: "jsval js" where
  "more' lx = (Inr JUndefined, lx\<lparr>readMore := True\<rparr>)"

definition less :: "int \<Rightarrow> jsval js" where
  "less n lx =
     (case text' lx of
        None \<Rightarrow> (Inl TypeError, lx)
      | Some t \<Rightarrow>
          if n > int (length t) then (Inr JUndefined, lx)
          else (Inr JUndefined,
                lx\<lparr>index := index lx - (int (length t) - n),
                   text' := Some (js_substr t 0 (Some n))\<rparr>))"

definition unput :: "jsval \<Rightarrow> jsval js" where
  "unput s lx =
     (case js_to_string s of
        Inl e \<Rightarrow> (Inl e, lx)
      | Inr t \<Rightarrow>
          (Inr JUndefined,
           lx\<lparr>source := js_substr (source lx) 0 (Some (index lx)) @ t
                 @ js_substr (source lx) (index lx) None\<rparr>))"

definition input :: "int option \<Rightarrow> jsval js" where
  "input n lx =
     (let v = js_substr (source lx) (index lx) (Some (case n of None \<Rightarrow> 1 | Some k \<Rightarrow> k))
      in (Inr (JStr v), lx\<lparr>index := index lx + int (length v)\<rparr>))"

definition terminate :: "jsval js" where
  "terminate lx = (Inr EOF, reset lx)"

definition restart :: "string option \<Rightarrow> jsval js" where
  "restart newSource lx =
     (Inr JUndefined,
      (case newSource of None \<Rightarrow> lx | Some s \<Rightarrow> lx\<lparr>source := s\<rparr>)\<lparr>index := 0\<rparr>)"

definition pushState :: "string \<Rightarrow> jsval js" where
  "pushState newState lx =
     (if \<not> states_truthy (states lx) newState then (Inl (not_registered newState), lx)
      else begin' (Some newState) (lx\<lparr>stateStack := stateStack lx @ [state lx]\<rparr>))"

definition topState :: "jsval js" where
  "topState lx =
     (Inr (if stateStack lx = [] then JUndefined else JStr (last (stateStack lx))), lx)"

definition popState :: "jsval js" where
  "popState lx =
     (if stateStack lx = [] then (Inl (Error ''Unable to pop state''), lx)
      else begin' (Some (last (stateStack lx))) (lx\<lparr>stateStack := butlast (stateStack lx)\<rparr>))"

definition switchState :: "string option \<Rightarrow> jsval js" where
  "switchState newState lx = begin' newState lx"

section \<open>Rules\<close>

text \<open>
  A compiled expression is a \<open>RegExp\<close> object: its \<open>source\<close> text and, for the regular
  expression engine, the function \<open>exec\<close> that gives the text matched in a string exactly
  at a position (the sticky flag), if any. A rule holds the fields \<open>addStateRule\<close> stores;
  the expression of an end-of-file rule is \<open>null\<close>, and its \<open>hasBOL\<close> and \<open>hasEOL\<close>
  are \<open>null\<close>, which every test reads as false.
\<close>

record regexp =
  re_source :: string
  exec :: "string \<Rightarrow> nat \<Rightarrow> string option"

record rule =
  expression :: "regexp option"
  hasBOL :: bool
  hasEOL :: bool
  isEOF :: bool
  action :: "jsval js option"
  fixedWidth :: "nat option"

definition escapeRegExp :: "string \<Rightarrow> string" where
  "escapeRegExp s =
     concat (map (\<lambda>c. if c \<in> set (''.*+?^${}()|[]'' @ [CHR 0x5C]) then [CHR 0x5C, c] else [c]) s)"

definition isRegExpMatchBOL :: "regexp \<Rightarrow> bool" where
  "isRegExpMatchBOL re = (js_substr (re_source re) 0 (Some 1) = ''^'')"

definition isRegExpMatchEOL :: "regexp \<Rightarrow> bool" where
  "isRegExpMatchEOL re = (js_substr (re_source re) (- 1) None = ''$'')"

text \<open>
  The rule record \<open>addStateRule\<close> builds, by the kind of its \<open>expression\<close> argument: a
  \<open>RegExp\<close> (here the compiled one, definitions expanded), a non-empty string other than
  \<open><<EOF>>\<close>, and \<open><<EOF>>\<close>. A string is escaped and compiled, so the compiled
  expression matches exactly the string's own characters (\<open>literal_exec\<close>; \<open>ignoreCase\<close>
  is off and no definition is expanded). The \<open>source\<close> of the compiled expression is the
  escaped text, up to the escapes the engine writes for a slash and a line terminator,
  which change neither the first character's being \<open>^\<close> nor the last one's being \<open>$\<close>.
\<close>

definition regexp_rule :: "regexp \<Rightarrow> jsval js option \<Rightarrow> rule" where
  "regexp_rule re act =
     \<lparr>expression = Some re, hasBOL = isRegExpMatchBOL re, hasEOL = isRegExpMatchEOL re,
      isEOF = False, action = act, fixedWidth = None\<rparr>"

definition literal_exec :: "string \<Rightarrow> string \<Rightarrow> nat \<Rightarrow> string option" where
  "literal_exec lit s i = (if take (length lit) (drop i s) = lit then Some lit else None)"

definition string_rule :: "string \<Rightarrow> jsval js option \<Rightarrow> rule" where
  "string_rule lit act =
     (let re = \<lparr>re_source = escapeRegExp lit, exec = literal_exec lit\<rparr>
      in \<lparr>expression = Some re, hasBOL = isRegExpMatchBOL re, hasEOL = isRegExpMatchEOL re,
          isEOF = False, action = act, fixedWidth = Some (length lit)\<rparr>)"

definition eof_rule :: "jsval js option \<Rightarrow> rule" where
  "eof_rule act =
     \<lparr>expression = None, hasBOL = False, hasEOL = False, isEOF = True, action = act,
      fixedWidth = None\<rparr>"

section \<open>Scanning\<close>

text \<open>
  \<open>execRegExp\<close> sets \<open>lastIndex\<close> to the cursor and runs the sticky expression: the
  engine reads a negative \<open>lastIndex\<close> as 0 and fails beyond the end of the string.
  Setting \<open>lastIndex\<close> on \<open>null\<close> raises a \<open>TypeError\<close>.
\<close>

definition execRegExp :: "regexp option \<Rightarrow> lexer \<Rightarrow> error + string option" where
  "execRegExp re lx =
     (case re of
        None \<Rightarrow> Inl TypeError
      | Some r \<Rightarrow>
          (let i = nat (max 0 (index lx))
           in if i > length (source lx) then Inr None else Inr (exec r (source lx) i)))"

text \<open>
  The weight the selection compares: the length of the matched text, plus one for each
  anchor flag of the rule.
\<close>

definition curMatchLength :: "rule \<Rightarrow> string \<Rightarrow> nat" where
  "curMatchLength r m = length m + (if hasBOL r then 1 else 0) + (if hasEOL r then 1 else 0)"

text \<open>
  The \<open>for\<close> loop of \<open>scan\<close> over the rules of the active state. \<open>k\<close> is the key of the
  rule at the head of the remaining list; the accumulator holds \<open>matchedIndex\<close>,
  \<open>matchedRule\<close>, \<open>matchedValue\<close> (none at the start) and \<open>matchedValueLength\<close>.
\<close>

type_synonym matched = "(nat \<times> rule \<times> string) option \<times> nat"

fun select_loop :: "lexer \<Rightarrow> bool \<Rightarrow> rule list \<Rightarrow> nat \<Rightarrow> matched \<Rightarrow> error + matched" where
  "select_loop lx eof [] k acc = Inr acc"
| "select_loop lx eof (r # rs) k (best, len) =
     (if Some k \<in> set (rejectedRules lx) then select_loop lx eof rs (Suc k) (best, len)
      else if eof then
        (if isEOF r then Inr (Some (k, r, []), len)
         else select_loop lx eof rs (Suc k) (best, len))
      else if (case fixedWidth r of None \<Rightarrow> True | Some w \<Rightarrow> w > len) then
        (case execRegExp (expression r) lx of
           Inl e \<Rightarrow> Inl e
         | Inr None \<Rightarrow> select_loop lx eof rs (Suc k) (best, len)
         | Inr (Some m) \<Rightarrow>
             if curMatchLength r m > len
             then select_loop lx eof rs (Suc k) (Some (k, r, m), curMatchLength r m)
             else select_loop lx eof rs (Suc k) (best, len))
      else select_loop lx eof rs (Suc k) (best, len))"

definition select :: "rule list \<Rightarrow> lexer \<Rightarrow> error + (nat \<times> rule \<times> string) option" where
  "select rules lx =
     (case select_loop lx (index lx \<ge> int (length (source lx))) rules 0 (None, 0) of
        Inl e \<Rightarrow> Inl e
      | Inr (best, len) \<Rightarrow> Inr best)"

definition replace_all :: "char \<Rightarrow> string \<Rightarrow> string \<Rightarrow> string" where
  "replace_all c rep s = concat (map (\<lambda>x. if x = c then rep else [x]) s)"

definition encodeString :: "string \<Rightarrow> string" where
  "encodeString s =
     replace_all (CHR 0x00) [CHR 0x5C, CHR ''0'']
       (replace_all (CHR 0x0C) [CHR 0x5C, CHR ''f'']
         (replace_all (CHR 0x09) [CHR 0x5C, CHR ''t'']
           (replace_all (CHR 0x0A) [CHR 0x5C, CHR ''n'']
             (replace_all (CHR 0x0D) [CHR 0x5C, CHR ''r''] s))))"

definition logAccept :: "string \<Rightarrow> regexp option \<Rightarrow> string \<Rightarrow> jsval js" where
  "logAccept st expr v lx =
     (case expr of
        None \<Rightarrow> (Inl TypeError, lx)
      | Some re \<Rightarrow>
          (Inr JUndefined,
           lx\<lparr>logged := logged lx @
             ['' - ['' @ st @ ''] accepting rule /'' @ encodeString (re_source re) @ ''/ (\"''
                @ encodeString v @ ''\")'']\<rparr>))"

text \<open>
  One pass. The rule table gives the rule array of a state, empty for a state without one.
  A step that raises ends the pass with the scanner as the step left it.
\<close>

definition scan :: "(string \<Rightarrow> rule list) \<Rightarrow> jsval js" where
  "scan rules lx =
     (let isEOF = index lx \<ge> int (length (source lx))
      in case select (rules (state lx)) lx of
        Inl e \<Rightarrow> (Inl e, lx)
      | Inr matched \<Rightarrow>
          (case (case matched of
                   Some (k, r, v) \<Rightarrow>
                     if debugEnabled lx then logAccept (state lx) (expression r) v lx
                     else (Inr JUndefined, lx)
                 | None \<Rightarrow> (Inr JUndefined, lx)) of
             (Inl e, lx1) \<Rightarrow> (Inl e, lx1)
           | (Inr u, lx1) \<Rightarrow>
               (let lx2 = lx1\<lparr>ruleIndex := map_option fst matched,
                               text' := (if readMore lx1 then text' lx1 else Some []),
                               readMore := False\<rparr>
                in case matched of
                  None \<Rightarrow>
                    if \<not> isEOF then
                      echo (lx2\<lparr>text' := Some (js_str (text' lx2) @ charAt (source lx2) (index lx2)),
                                index := index lx2 + 1\<rparr>)
                    else terminate (lx2\<lparr>text' := Some []\<rparr>)
                | Some (k, r, v) \<Rightarrow>
                    (let lx3 = lx2\<lparr>text' := Some (js_str (text' lx2) @ v)\<rparr>;
                         lx4 = lx3\<lparr>index := index lx3 + int (length (js_str (text' lx3)))\<rparr>;
                         rejectedBefore = length (rejectedRules lx4)
                     in case (case action r of Some a \<Rightarrow> a lx4 | None \<Rightarrow> discard lx4) of
                       (Inl e, lx5) \<Rightarrow> (Inl e, lx5)
                     | (Inr actionResult, lx5) \<Rightarrow>
                         if length (rejectedRules lx5) > rejectedBefore then (Inr JUndefined, lx5)
                         else
                           (let lx6 = lx5\<lparr>rejectedRules := []\<rparr>;
                                isEOF' = (if isEOF then index lx6 \<ge> int (length (source lx6))
                                          else isEOF)
                            in if isEOF' then terminate lx6 else (Inr actionResult, lx6))))))"

text \<open>
  \<open>lex\<close> repeats \<open>scan\<close> while it returns \<open>undefined\<close>, and \<open>lexAll\<close> collects the
  results of \<open>lex\<close> up to the first \<open>EOF\<close>. Neither loop has a bound, so each is a partial
  function: \<open>None\<close> is a run that does not return.
\<close>

partial_function (option) lex :: "(string \<Rightarrow> rule list) \<Rightarrow> lexer \<Rightarrow> ((error + jsval) \<times> lexer) option" where
  "lex rules lx =
     (case scan rules lx of
        (Inl e, lx') \<Rightarrow> Some (Inl e, lx')
      | (Inr result, lx') \<Rightarrow>
          if result = JUndefined then lex rules lx' else Some (Inr result, lx'))"

partial_function (option) lexAll_loop ::
  "(string \<Rightarrow> rule list) \<Rightarrow> jsval list \<Rightarrow> lexer \<Rightarrow> ((error + jsval list) \<times> lexer) option" where
  "lexAll_loop rules result lx =
     Option.bind (lex rules lx) (\<lambda>r.
       case r of
         (Inl e, lx') \<Rightarrow> Some (Inl e, lx')
       | (Inr token, lx') \<Rightarrow>
           if token \<noteq> EOF then lexAll_loop rules (result @ [token]) lx'
           else Some (Inr result, lx'))"

definition lexAll :: "(string \<Rightarrow> rule list) \<Rightarrow> lexer \<Rightarrow> ((error + jsval list) \<times> lexer) option" where
  "lexAll rules lx = lexAll_loop rules [] lx"

section \<open>Notions used in the statements\<close>

text \<open>
  The identifier grammar \<open>[A-Za-z_][A-Za-z0-9_-]*\<close>, following the words of the
  specification: a letter or an underscore, then letters, digits, underscores and dashes.
\<close>

definition is_id_start :: "char \<Rightarrow> bool" where
  "is_id_start c =
     (let n = (of_char c :: nat)
      in (65 \<le> n \<and> n \<le> 90) \<or> (97 \<le> n \<and> n \<le> 122) \<or> c = CHR ''_'')"

definition is_id_char :: "char \<Rightarrow> bool" where
  "is_id_char c =
     (let n = (of_char c :: nat) in is_id_start c \<or> (48 \<le> n \<and> n \<le> 57) \<or> c = CHR ''-'')"

definition spec_identifier :: "string \<Rightarrow> bool" where
  "spec_identifier s =
     (case s of [] \<Rightarrow> False | c # cs \<Rightarrow> is_id_start c \<and> list_all is_id_char cs)"

text \<open>
  A candidate at the cursor: a rule of the list, by its key, that is not rejected, is not
  an end-of-file rule, and whose expression matches the text \<open>m\<close> at the cursor.
\<close>

definition candidate :: "lexer \<Rightarrow> rule list \<Rightarrow> nat \<Rightarrow> string \<Rightarrow> bool" where
  "candidate lx rs j m =
     (j < length rs \<and> Some j \<notin> set (rejectedRules lx) \<and> \<not> isEOF (rs ! j)
      \<and> execRegExp (expression (rs ! j)) lx = Inr (Some m))"

text \<open>
  The weight of a match of a rule with a \<open>fixedWidth\<close> stays within that width: so it is
  for a string rule without anchor flag, whose match is the string itself.
\<close>

definition width_bounds :: "rule \<Rightarrow> string \<Rightarrow> bool" where
  "width_bounds r m = (case fixedWidth r of None \<Rightarrow> True | Some w \<Rightarrow> curMatchLength r m \<le> w)"


text \<open>
  The body of the selection loop at a cursor inside the input, as a function of the
  accumulator; \<open>select_loop\<close> iterates it (lemma \<open>select_loop_Cons\<close>).
\<close>

definition select_step :: "lexer \<Rightarrow> rule \<Rightarrow> nat \<Rightarrow> matched \<Rightarrow> error + matched" where
  "select_step lx r k acc =
     (if Some k \<in> set (rejectedRules lx) then Inr acc
      else if (case fixedWidth r of None \<Rightarrow> True | Some w \<Rightarrow> w > snd acc) then
        (case execRegExp (expression r) lx of
           Inl e \<Rightarrow> Inl e
         | Inr None \<Rightarrow> Inr acc
         | Inr (Some m) \<Rightarrow>
             if curMatchLength r m > snd acc then Inr (Some (k, r, m), curMatchLength r m)
             else Inr acc)
      else Inr acc)"

text \<open>
  The scanner as the action of the matched rule \<open>k\<close> receives it, and the call of that
  action (\<open>discard\<close> for a rule without one).
\<close>

definition before_action :: "lexer \<Rightarrow> nat \<Rightarrow> string \<Rightarrow> lexer" where
  "before_action lx k v =
     (let t = (if readMore lx then js_str (text' lx) else []) @ v
      in lx\<lparr>ruleIndex := Some k, text' := Some t, readMore := False,
            index := index lx + int (length t)\<rparr>)"

definition run_action :: "rule \<Rightarrow> jsval js" where
  "run_action r lx = (case action r of Some a \<Rightarrow> a lx | None \<Rightarrow> discard lx)"

section \<open>Example configurations\<close>


definition any_two :: regexp where
  "any_two =
     \<lparr>re_source = ''[^]{2}'',
      exec = (\<lambda>s i. if i + 2 \<le> length s then Some (take 2 (drop i s)) else None)\<rparr>"


text \<open>\<open>addRule(/[^]{2}/); addRule('a$')\<close>\<close>

definition dollar_rules :: "rule list" where
  "dollar_rules = [regexp_rule any_two None, string_rule ''a$'' None]"

text \<open>
  The regular expression of the three characters \<open>a\<close>, an escaped \<open>$\<close> and \<open>b\<close>, which
  matches exactly the text \<open>a$b\<close>; and the rules of \<open>addRule('a$')\<close> followed by
  \<open>addRule\<close> of that expression.
\<close>

definition a_dollar_b :: regexp where
  "a_dollar_b = \<lparr>re_source = ''a'' @ [CHR 0x5C] @ ''$b'', exec = literal_exec ''a$b''\<rparr>"

definition literal_dollar_rules :: "rule list" where
  "literal_dollar_rules = [string_rule ''a$'' None, regexp_rule a_dollar_b None]"

text \<open>
  \<open>addRule('mega-', function (lexer) { lexer.more(); }); addRule('kludge')\<close>
\<close>

definition mega_kludge_rules :: "string \<Rightarrow> rule list" where
  "mega_kludge_rules st =
     (if st = ''INITIAL'' then [string_rule ''mega-'' (Some more'), string_rule ''kludge'' None]
      else [])"

text \<open>\<open>addRule('a', function (lexer) { lexer.reject(); })\<close>\<close>

definition reject_a_rules :: "string \<Rightarrow> rule list" where
  "reject_a_rules st = (if st = ''INITIAL'' then [string_rule ''a'' (Some reject)] else [])"

text \<open>\<open>addRule('<<EOF>>')\<close>\<close>

definition eof_only_rules :: "string \<Rightarrow> rule list" where
  "eof_only_rules st = (if st = ''INITIAL'' then [eof_rule None] else [])"

section \<open>Basic facts\<close>

lemma Lexer_eq:
  "Lexer =
     \<lparr>states = \<lparr>own = [''INITIAL'' \<mapsto> \<lparr>name = ''INITIAL'', exclusive = False\<rparr>], proto = None\<rparr>,
      definitions = Map.empty, ignoreCase = False, debugEnabled = False, source = [],
      index = 0, text' = None, state = ''INITIAL'', ruleIndex = None, readMore = False,
      stateStack = [], rejectedRules = [], echoed = [], logged = []\<rparr>"
  by (simp add: Lexer_def clear_def reset_def addState_def states_set_def empty_object_def
      STATE_INITIAL_def)

lemmas eval_defs = scan_def select_def string_rule_def eof_rule_def regexp_rule_def
  execRegExp_def literal_exec_def curMatchLength_def isRegExpMatchBOL_def isRegExpMatchEOL_def
  escapeRegExp_def js_substr_def js_str_def charAt_def setSource_def Lexer_eq
  more'_def reject_def discard_def echo_def terminate_def reset_def logAccept_def
  STATE_INITIAL_def EOF_def Let_def

section \<open>The selection loop\<close>

lemma select_loop_Cons:
  "select_loop lx False (r # rs) k acc =
     (case select_step lx r k acc of
        Inl e \<Rightarrow> Inl e
      | Inr acc' \<Rightarrow> select_loop lx False rs (Suc k) acc')"
  by (cases acc) (simp add: select_step_def split: sum.splits option.splits)

lemma select_loop_ConsD:
  assumes "select_loop lx False (r # rs) k (b, l) = Inr res"
  shows "\<exists>b1 l1. select_step lx r k (b, l) = Inr (b1, l1)
           \<and> select_loop lx False rs (Suc k) (b1, l1) = Inr res"
proof (cases "select_step lx r k (b, l)")
  case (Inl e)
  with assms show ?thesis by (simp only: select_loop_Cons) simp
next
  case (Inr acc')
  with assms have "select_loop lx False rs (Suc k) acc' = Inr res"
    by (simp only: select_loop_Cons) simp
  with Inr show ?thesis by (cases acc') simp
qed

text \<open>One step keeps the accumulator or replaces it by the rule at hand, of greater weight.\<close>

lemma select_step_origin:
  assumes "select_step lx r k (b, l) = Inr (b', l')"
  shows "(b' = b \<and> l' = l) \<or>
     (l < l' \<and> Some k \<notin> set (rejectedRules lx) \<and>
      (\<exists>m. b' = Some (k, r, m) \<and> execRegExp (expression r) lx = Inr (Some m)
         \<and> curMatchLength r m = l'))"
  using assms by (auto simp add: select_step_def split: if_splits sum.splits option.splits)

lemma select_step_bound:
  assumes "select_step lx r k (b, l) = Inr (b', l')"
    and "Some k \<notin> set (rejectedRules lx)"
    and "execRegExp (expression r) lx = Inr (Some m)"
    and "width_bounds r m"
  shows "curMatchLength r m \<le> l'"
  using assms
  by (auto simp add: select_step_def width_bounds_def split: if_splits option.splits)

lemma select_loop_origin:
  "select_loop lx False rs k (b, l) = Inr (b', l') \<Longrightarrow>
   (b' = b \<and> l' = l) \<or>
   (l < l' \<and> (\<exists>j m. j < length rs \<and> b' = Some (k + j, rs ! j, m)
      \<and> Some (k + j) \<notin> set (rejectedRules lx)
      \<and> execRegExp (expression (rs ! j)) lx = Inr (Some m) \<and> curMatchLength (rs ! j) m = l'))"
proof (induction rs arbitrary: k b l)
  case Nil
  then show ?case by simp
next
  case (Cons r rs)
  from Cons.prems obtain b1 l1 where
    step: "select_step lx r k (b, l) = Inr (b1, l1)" and
    rest: "select_loop lx False rs (Suc k) (b1, l1) = Inr (b', l')"
    using select_loop_ConsD by blast
  from Cons.IH [OF rest]
  consider (same) "b' = b1" "l' = l1"
    | (later) j m where "l1 < l'" "j < length rs" "b' = Some (Suc k + j, rs ! j, m)"
        "Some (Suc k + j) \<notin> set (rejectedRules lx)"
        "execRegExp (expression (rs ! j)) lx = Inr (Some m)" "curMatchLength (rs ! j) m = l'"
    by blast
  then show ?case
  proof cases
    case same
    from select_step_origin [OF step] show ?thesis
    proof
      assume "b1 = b \<and> l1 = l"
      with same show ?thesis by simp
    next
      assume h: "l < l1 \<and> Some k \<notin> set (rejectedRules lx) \<and>
        (\<exists>m. b1 = Some (k, r, m) \<and> execRegExp (expression r) lx = Inr (Some m)
           \<and> curMatchLength r m = l1)"
      then obtain m where "b1 = Some (k, r, m)" "execRegExp (expression r) lx = Inr (Some m)"
        "curMatchLength r m = l1" by blast
      with h same show ?thesis
        by (intro disjI2 conjI exI [of _ 0] exI [of _ m]) simp_all
    qed
  next
    case later
    from select_step_origin [OF step] have "l \<le> l1" by auto
    with later show ?thesis
      by (intro disjI2 conjI exI [of _ "Suc j"] exI [of _ m]) simp_all
  qed
qed

lemma select_loop_mono:
  "select_loop lx False rs k (b, l) = Inr (b', l') \<Longrightarrow> l \<le> l'"
  using select_loop_origin [of lx rs k b l b' l'] by auto

text \<open>The final weight bounds the weight of every candidate within its width.\<close>

lemma select_loop_bound:
  "select_loop lx False rs k (b, l) = Inr (b', l') \<Longrightarrow> j < length rs \<Longrightarrow>
   Some (k + j) \<notin> set (rejectedRules lx) \<Longrightarrow>
   execRegExp (expression (rs ! j)) lx = Inr (Some m) \<Longrightarrow> width_bounds (rs ! j) m \<Longrightarrow>
   curMatchLength (rs ! j) m \<le> l'"
proof (induction rs arbitrary: k b l j)
  case Nil
  then show ?case by simp
next
  case (Cons r rs)
  from Cons.prems(1) obtain b1 l1 where
    step: "select_step lx r k (b, l) = Inr (b1, l1)" and
    rest: "select_loop lx False rs (Suc k) (b1, l1) = Inr (b', l')"
    using select_loop_ConsD by blast
  show ?case
  proof (cases j)
    case 0
    with Cons.prems have "curMatchLength r m \<le> l1"
      using select_step_bound [OF step] by simp
    also have "l1 \<le> l'" using select_loop_mono [OF rest] .
    finally show ?thesis using 0 by simp
  next
    case (Suc j')
    with Cons.prems Cons.IH [OF rest, of j'] show ?thesis by simp
  qed
qed

text \<open>A candidate before the chosen rule has strictly smaller weight.\<close>

lemma select_loop_first:
  "select_loop lx False rs k (b, l) = Inr (Some (k', r', m'), l') \<Longrightarrow> j < length rs \<Longrightarrow>
   k + j < k' \<Longrightarrow>
   Some (k + j) \<notin> set (rejectedRules lx) \<Longrightarrow>
   execRegExp (expression (rs ! j)) lx = Inr (Some m) \<Longrightarrow> width_bounds (rs ! j) m \<Longrightarrow>
   (case b of None \<Rightarrow> True | Some (kb, rb, mb) \<Rightarrow> kb < k) \<Longrightarrow>
   curMatchLength (rs ! j) m < l'"
proof (induction rs arbitrary: k b l j)
  case Nil
  then show ?case by simp
next
  case (Cons r rs)
  from Cons.prems(1) obtain b1 l1 where
    step: "select_step lx r k (b, l) = Inr (b1, l1)" and
    rest: "select_loop lx False rs (Suc k) (b1, l1) = Inr (Some (k', r', m'), l')"
    using select_loop_ConsD by blast
  have b1: "case b1 of None \<Rightarrow> True | Some (kb, rb, mb) \<Rightarrow> kb < Suc k"
    using select_step_origin [OF step] Cons.prems(7) by (auto split: option.splits)
  show ?case
  proof (cases j)
    case 0
    with Cons.prems have le: "curMatchLength r m \<le> l1"
      using select_step_bound [OF step] by simp
    from select_loop_origin [OF rest] show ?thesis
    proof
      assume "Some (k', r', m') = b1 \<and> l' = l1"
      with b1 have "k' < Suc k" by auto
      with Cons.prems(3) show ?thesis by simp
    next
      assume "l1 < l' \<and> (\<exists>j m. j < length rs \<and> Some (k', r', m') = Some (Suc k + j, rs ! j, m)
        \<and> Some (Suc k + j) \<notin> set (rejectedRules lx)
        \<and> execRegExp (expression (rs ! j)) lx = Inr (Some m) \<and> curMatchLength (rs ! j) m = l')"
      with le 0 show ?thesis by simp
    qed
  next
    case (Suc j')
    with Cons.prems b1 Cons.IH [OF rest, of j'] show ?thesis by simp
  qed
qed


text \<open>A rule is selected inside the input only with a positive weight.\<close>

lemma select_positive_weight:
  assumes "index lx < int (length (source lx))" and "select rs lx = Inr (Some (k, r, m))"
  shows "0 < curMatchLength r m"
proof -
  from assms obtain l' where
    loop: "select_loop lx False rs 0 (None, 0) = Inr (Some (k, r, m), l')"
    by (auto simp add: select_def split: sum.splits)
  from select_loop_origin [OF loop] show ?thesis by auto
qed

text \<open>At the end of the input only an end-of-file rule is selected, with the empty text.\<close>

lemma select_at_end:
  assumes "int (length (source lx)) \<le> index lx" and "select rs lx = Inr (Some (k, r, v))"
  shows "isEOF r \<and> v = []"
proof -
  have "select_loop lx True rs n (b, l) = Inr (Some (k, r, v), l') \<Longrightarrow>
      (case b of None \<Rightarrow> True | Some (kb, rb, vb) \<Rightarrow> isEOF rb \<and> vb = []) \<Longrightarrow> isEOF r \<and> v = []"
    for n b l l'
    by (induction rs arbitrary: n) (auto split: if_splits)
  with assms show ?thesis
    by (fastforce simp add: select_def split: sum.splits)
qed

text \<open>
  Without a string rule that carries an anchor flag the selection is the longest match,
  the earlier rule first: at a cursor inside the input, the rule \<open>k\<close> the selection
  returns is a rule of the list that matches at the cursor, and for every candidate \<open>j\<close>
  whose weight stays within its \<open>fixedWidth\<close> (every rule of a regular expression, and
  every string rule without anchor flag) the weight of \<open>j\<close> is at most that of \<open>k\<close>, and
  \<open>k\<close> is the earlier of the two when the weights are equal.
\<close>

lemma select_longest_first:
  assumes "index lx < int (length (source lx))"
    and "select rs lx = Inr (Some (k, r, m))"
    and "candidate lx rs j mj"
    and "width_bounds (rs ! j) mj"
  shows "k < length rs \<and> r = rs ! k \<and> execRegExp (expression r) lx = Inr (Some m) \<and>
     curMatchLength (rs ! j) mj \<le> curMatchLength r m \<and>
     (curMatchLength (rs ! j) mj = curMatchLength r m \<longrightarrow> k \<le> j)"
proof -
  from assms(1,2) obtain l' where
    loop: "select_loop lx False rs 0 (None, 0) = Inr (Some (k, r, m), l')"
    by (auto simp add: select_def split: sum.splits)
  from select_loop_origin [OF loop] have
    orig: "k < length rs" "r = rs ! k" "execRegExp (expression r) lx = Inr (Some m)"
      "curMatchLength r m = l'"
    by auto
  from assms(3) have cand: "j < length rs" "Some j \<notin> set (rejectedRules lx)"
    "execRegExp (expression (rs ! j)) lx = Inr (Some mj)"
    by (simp_all add: candidate_def)
  have le: "curMatchLength (rs ! j) mj \<le> l'"
    using select_loop_bound [OF loop, of j mj] cand assms(4) by simp
  have lt: "curMatchLength (rs ! j) mj < l'" if "j < k"
    using select_loop_first [OF loop, of j mj] cand assms(4) that by simp
  show ?thesis
    using orig le lt by fastforce
qed

text \<open>
  A string rule that ends in \<open>$\<close> carries \<open>hasEOL\<close>, read off the last character of its
  escaped source, and the loop skips it once its \<open>fixedWidth\<close> does not exceed the best
  weight: after \<open>/[^]{2}/\<close> on the input \<open>a$\<close> the rule \<open>'a$'\<close>, of weight 3, is not tried.
\<close>

lemma select_skips_anchored_literal:
  "select dollar_rules (setSource ''a$'' Lexer) = Inr (Some (0, dollar_rules ! 0, ''a$'')) \<and>
   candidate (setSource ''a$'' Lexer) dollar_rules 1 ''a$'' \<and>
   curMatchLength (dollar_rules ! 0) ''a$'' = 2 \<and>
   curMatchLength (dollar_rules ! 1) ''a$'' = 3"
  by (simp add: dollar_rules_def any_two_def candidate_def eval_defs)

text \<open>
  Claim C1: at a cursor inside the input, the rule the selection returns has an effective
  length (the length of its match, plus one for each anchor of its pattern) at least that
  of every other candidate, and the earlier rule is chosen among equals. The string rule
  \<open>'a$'\<close> has no anchor: its \<open>$\<close> is a character of the text. The code still gives it
  \<open>hasEOL\<close>, since its escaped source ends in \<open>$\<close>, and so the weight 3 for its match of
  length 2. On the input \<open>a$b\<close>, with that rule before a regular expression without
  anchors that matches \<open>a$b\<close>, of length and weight 3, the selection returns the string
  rule and its shorter match.
\<close>

theorem select_prefers_shorter_literal:
  "select literal_dollar_rules (setSource ''a$b'' Lexer)
     = Inr (Some (0, literal_dollar_rules ! 0, ''a$'')) \<and>
   candidate (setSource ''a$b'' Lexer) literal_dollar_rules 1 ''a$b'' \<and>
   \<not> hasBOL (literal_dollar_rules ! 1) \<and> \<not> hasEOL (literal_dollar_rules ! 1) \<and>
   re_source (the (expression (literal_dollar_rules ! 0))) = ''a'' @ [CHR 0x5C] @ ''$'' \<and>
   hasEOL (literal_dollar_rules ! 0) \<and>
   curMatchLength (literal_dollar_rules ! 0) ''a$'' = 3 \<and>
   curMatchLength (literal_dollar_rules ! 1) ''a$b'' = 3"
  by (simp add: literal_dollar_rules_def a_dollar_b_def candidate_def eval_defs)

text \<open>
  At a cursor inside the input the selection raises when it reaches an end-of-file rule
  that is not rejected: \<open>execRegExp\<close> is called with its \<open>null\<close> expression.
\<close>

lemma select_raises_on_eof_rule:
  "select (eof_only_rules ''INITIAL'') (setSource ''a'' Lexer) = Inl TypeError"
  by (simp add: eof_only_rules_def eval_defs)

section \<open>One pass\<close>

lemma select_Nil: "select [] lx = Inr None"
  by (simp add: select_def)

lemma scan_no_match:
  assumes "select (rules (state lx)) lx = Inr None"
  shows "scan rules lx =
     (if index lx < int (length (source lx)) then
        echo (lx\<lparr>ruleIndex := None,
                 text' := Some ((if readMore lx then js_str (text' lx) else [])
                            @ charAt (source lx) (index lx)),
                 readMore := False, index := index lx + 1\<rparr>)
      else terminate (lx\<lparr>ruleIndex := None, text' := Some [], readMore := False\<rparr>))"
  using assms by (cases lx) (simp add: scan_def Let_def js_str_def)

text \<open>
  A pass that selects a rule, with debugging off: the action runs on \<open>before_action\<close>,
  and its outcome decides the result of the pass.
\<close>

lemma scan_matched:
  assumes "select (rules (state lx)) lx = Inr (Some (k, r, v))" and "\<not> debugEnabled lx"
  shows "scan rules lx =
     (case run_action r (before_action lx k v) of
        (Inl e, lx') \<Rightarrow> (Inl e, lx')
      | (Inr res, lx') \<Rightarrow>
          if length (rejectedRules lx') > length (rejectedRules lx) then (Inr JUndefined, lx')
          else if int (length (source lx)) \<le> index lx \<and> int (length (source lx')) \<le> index lx'
          then terminate (lx'\<lparr>rejectedRules := []\<rparr>)
          else (Inr res, lx'\<lparr>rejectedRules := []\<rparr>))"
proof (cases "run_action r (before_action lx k v)")
  case (Pair out lx')
  then show ?thesis
    using assms
    by (cases out; cases lx)
      (auto simp add: scan_def Let_def run_action_def before_action_def js_str_def
         split: option.splits if_splits)
qed

text \<open>
  Claim C2: the cursor stays within \<open>0 \<le> index \<le> |source|\<close> after every pass, also
  after a pass that matches a rule when the action of the pass before called \<open>more()\<close>.
  The code advances the cursor by the length of the whole \<open>text\<close>, the text carried over
  included: on the input \<open>mega-kludge\<close>, of length 11, the first pass matches \<open>mega-\<close>
  and calls \<open>more()\<close>, the second matches \<open>kludge\<close> at 5 and leaves the cursor at 16.
\<close>

theorem more_overruns_source:
  "index (snd (scan mega_kludge_rules
      (snd (scan mega_kludge_rules (setSource ''mega-kludge'' Lexer))))) = 16 \<and>
   length (source (snd (scan mega_kludge_rules
      (snd (scan mega_kludge_rules (setSource ''mega-kludge'' Lexer)))))) = 11"
  by (simp add: eval_defs mega_kludge_rules_def)

text \<open>
  Claim C3: a pass that advances the cursor and records no \<open>reject()\<close> ends with an
  empty rejected set, the pass of the default echo rule included. The code returns from
  the default echo rule before the line that empties \<open>rejectedRules\<close>: with the rule
  \<open>'a'\<close> whose action rejects and the input \<open>aa\<close>, the first pass records the rejection
  and rewinds to 0, the second echoes one character and moves to 1, and rule 0 is still
  rejected.
\<close>

theorem echo_keeps_rejected:
  "index (snd (scan reject_a_rules (setSource ''aa'' Lexer))) = 0 \<and>
   rejectedRules (snd (scan reject_a_rules (setSource ''aa'' Lexer))) = [Some 0] \<and>
   index (snd (scan reject_a_rules (snd (scan reject_a_rules (setSource ''aa'' Lexer))))) = 1 \<and>
   rejectedRules (snd (scan reject_a_rules (snd (scan reject_a_rules (setSource ''aa'' Lexer)))))
     = [Some 0] \<and>
   echoed (snd (scan reject_a_rules (snd (scan reject_a_rules (setSource ''aa'' Lexer)))))
     = [Some ''a'']"
  by (simp add: eval_defs reject_a_rules_def)

text \<open>The path of a matched rule does empty the set when its action recorded no rejection.\<close>

lemma scan_matched_clears_rejected:
  assumes "select (rules (state lx)) lx = Inr (Some (k, r, v))" and "\<not> debugEnabled lx"
    and "run_action r (before_action lx k v) = (Inr res, lx')"
    and "length (rejectedRules lx') \<le> length (rejectedRules lx)"
  shows "rejectedRules (snd (scan rules lx)) = []"
  using assms by (simp add: scan_matched terminate_def reset_def)

text \<open>
  With debugging off, a pass that begins at the end of the input and selects a rule
  selects an end-of-file rule; when its action returns without a new rejection, the pass
  returns \<open>EOF\<close> and resets the scanner if the cursor is still at the end, and returns the
  action's result otherwise.
\<close>

lemma scan_eof_rule_debug_off:
  assumes "int (length (source lx)) \<le> index lx"
    and "select (rules (state lx)) lx = Inr (Some (k, r, v))"
    and "\<not> debugEnabled lx"
    and "run_action r (before_action lx k v) = (Inr res, lx')"
    and "length (rejectedRules lx') \<le> length (rejectedRules lx)"
  shows "isEOF r \<and>
     scan rules lx =
       (if int (length (source lx')) \<le> index lx' then (Inr EOF, reset lx')
        else (Inr res, lx'\<lparr>rejectedRules := []\<rparr>))"
  using assms select_at_end [OF assms(1,2)]
  by (simp add: scan_matched terminate_def reset_def)

text \<open>
  Claim C4: a pass that begins at the end of the input and selects an end-of-file rule
  whose action does not reject returns \<open>EOF\<close> and resets the scanner when the cursor is
  still at the end after the action. With \<open>setDebugEnabled(true)\<close> the pass calls
  \<open>logAccept\<close> with the rule's expression, which is \<open>null\<close> for an end-of-file rule, and
  reading \<open>expression.source\<close> raises a \<open>TypeError\<close> before the action runs: the pass
  returns nothing and resets nothing.
\<close>

theorem eof_rule_debug_throws:
  "scan eof_only_rules (setDebugEnabled True Lexer) = (Inl TypeError, setDebugEnabled True Lexer)"
  by (simp add: eval_defs eof_only_rules_def setDebugEnabled_def)




section \<open>Scanning without rules\<close>

lemma scan_no_rules_char:
  assumes "0 \<le> index lx" "index lx < int (length (source lx))" "\<not> readMore lx"
  shows "scan (\<lambda>st. []) lx =
     (Inr JUndefined,
      lx\<lparr>ruleIndex := None, text' := Some [source lx ! nat (index lx)], readMore := False,
         index := index lx + 1, echoed := echoed lx @ [Some [source lx ! nat (index lx)]]\<rparr>)"
  using assms by (simp add: scan_no_match select_Nil echo_def charAt_def)

lemma scan_no_rules_end:
  assumes "int (length (source lx)) \<le> index lx"
  shows "scan (\<lambda>st. []) lx = (Inr EOF, reset lx)"
  using assms by (simp add: scan_no_match select_Nil terminate_def reset_def)

text \<open>
  Without rules \<open>lex\<close> returns: it echoes the rest of the input, one character a pass,
  and ends with \<open>EOF\<close> on the reset scanner. By induction on the length of the rest.
\<close>

lemma lex_no_rules:
  assumes "0 \<le> index lx" "\<not> readMore lx"
  shows "lex (\<lambda>st. []) lx =
     Some (Inr EOF,
       (reset lx)\<lparr>echoed := echoed lx
          @ map (\<lambda>c. Some [c]) (drop (nat (index lx)) (source lx))\<rparr>)"
  using assms
proof (induction "length (source lx) - nat (index lx)" arbitrary: lx)
  case 0
  then have e: "int (length (source lx)) \<le> index lx" by simp
  then have d: "drop (nat (index lx)) (source lx) = []" using 0 by simp
  show ?case
    by (subst lex.simps) (simp add: scan_no_rules_end [OF e] d EOF_def reset_def)
next
  case (Suc n)
  then have lt: "index lx < int (length (source lx))" by linarith
  let ?c = "source lx ! nat (index lx)"
  let ?lx' = "lx\<lparr>ruleIndex := None, text' := Some [?c], readMore := False,
         index := index lx + 1, echoed := echoed lx @ [Some [?c]]\<rparr>"
  have sc: "scan (\<lambda>st. []) lx = (Inr JUndefined, ?lx')"
    using scan_no_rules_char [OF Suc.prems(1) lt Suc.prems(2)] .
  have n: "n = length (source ?lx') - nat (index ?lx')"
    using Suc.hyps(2) Suc.prems(1) by simp
  have ih: "lex (\<lambda>st. []) ?lx' =
     Some (Inr EOF,
       (reset ?lx')\<lparr>echoed := echoed ?lx'
          @ map (\<lambda>c. Some [c]) (drop (nat (index ?lx')) (source ?lx'))\<rparr>)"
    using Suc.hyps(1) [OF n] Suc.prems(1) by simp
  have dr: "drop (nat (index lx)) (source lx) = ?c # drop (nat (index lx + 1)) (source lx)"
    using lt Suc.prems(1) by (simp add: Cons_nth_drop_Suc nat_add_distrib)
  show ?case
    by (subst lex.simps) (simp add: sc ih dr reset_def)
qed

text \<open>
  Claim C6: for every input string \<open>s\<close>, \<open>lexAll\<close> on a new scanner without rules and
  with the source \<open>s\<close> returns, with the empty list of tokens and no error, and the echo
  sink has received the characters of \<open>s\<close>, each alone and in the order of the input.
\<close>

theorem lexAll_no_rules_echoes:
  "lexAll (\<lambda>st. []) (setSource s Lexer) =
     Some (Inr [], Lexer\<lparr>echoed := map (\<lambda>c. Some [c]) s\<rparr>)"
proof -
  have "lex (\<lambda>st. []) (setSource s Lexer) =
      Some (Inr EOF, (reset (setSource s Lexer))\<lparr>echoed := map (\<lambda>c. Some [c]) s\<rparr>)"
    using lex_no_rules [of "setSource s Lexer"] by (simp add: setSource_def Lexer_eq)
  moreover have "(reset (setSource s Lexer))\<lparr>echoed := map (\<lambda>c. Some [c]) s\<rparr>
      = Lexer\<lparr>echoed := map (\<lambda>c. Some [c]) s\<rparr>"
    by (simp add: reset_def setSource_def Lexer_eq STATE_INITIAL_def)
  ultimately show ?thesis
    by (simp add: lexAll_def lexAll_loop.simps)
qed

section \<open>The Action API and the configuration\<close>

text \<open>
  Claim C7: \<open>restart\<close> sets the cursor to 0 and replaces the source by the new one when
  one is given; the active state, the state stack, the registry of states, the
  definitions and every other field stay as they are (the rule table is no part of what
  \<open>restart\<close> receives).
\<close>

theorem restart_frame:
  "restart newSource lx =
     (Inr JUndefined,
      lx\<lparr>source := (case newSource of None \<Rightarrow> source lx | Some s \<Rightarrow> s), index := 0\<rparr>)"
  by (simp add: restart_def split: option.splits)

text \<open>
  Claim C8, as stated: \<open>unput\<close> raises an error for every argument that is not a string.
  The code has no check: \<open>unput(5)\<close> on the source \<open>ab\<close> returns and the source is
  \<open>5ab\<close>.
\<close>

theorem unput_non_string_counterexample:
  "fst (unput (JNum (Abs_safe_integer 5)) (setSource ''ab'' Lexer)) = Inr JUndefined \<and>
   source (snd (unput (JNum (Abs_safe_integer 5)) (setSource ''ab'' Lexer))) = ''5ab''"
  by (simp add: unput_def setSource_def Lexer_eq js_substr_def Abs_safe_integer_inverse)

text \<open>
  Claim C8, amended: \<open>unput\<close> checks nothing about its argument. When the conversion of
  the argument to a string yields \<open>t\<close> (the argument itself when it is a string; the
  text of \<open>undefined\<close>, \<open>null\<close>, a boolean or a safe integer), \<open>unput\<close> raises no
  error and, at a cursor that is not negative, replaces the source by
  \<open>source[0..index)\<close>, \<open>t\<close> and \<open>source[index..)\<close>, leaving the cursor and all else
  unchanged. It raises only the error that the conversion raises, with the scanner
  unchanged.
\<close>

theorem unput_splices:
  "(js_to_string v = Inr t \<longrightarrow>
      fst (unput v lx) = Inr JUndefined \<and>
      (0 \<le> index lx \<longrightarrow>
         snd (unput v lx) =
           lx\<lparr>source := take (nat (index lx)) (source lx) @ t
                 @ drop (nat (index lx)) (source lx)\<rparr>)) \<and>
   (js_to_string v = Inl e \<longrightarrow> unput v lx = (Inl e, lx)) \<and>
   js_to_string (JStr s) = Inr s"
  by (auto simp add: unput_def js_substr_def Let_def min_def max_def)

text \<open>The amended claim C8 on \<open>unput('xy')\<close> at the start of the source \<open>ab\<close>.\<close>

theorem unput_splices_witness:
  "js_to_string (JStr ''xy'') = Inr ''xy'' \<and>
   0 \<le> index (setSource ''ab'' Lexer) \<and>
   unput (JStr ''xy'') (setSource ''ab'' Lexer)
     = (Inr JUndefined, (setSource ''ab'' Lexer)\<lparr>source := ''xyab''\<rparr>)"
  using unput_splices [of "JStr ''xy''" "''xy''" "setSource ''ab'' Lexer"]
  by (simp add: setSource_def Lexer_eq prod_eq_iff)

text \<open>A Symbol is an argument for which \<open>unput\<close> raises: its conversion does.\<close>

lemma unput_symbol_raises: "unput JSymbol lx = (Inl TypeError, lx)"
  by (simp add: unput_def)

text \<open>
  Claim C9, as stated: \<open>addState\<close> raises an error for every name that fails the
  identifier grammar. The code checks nothing: \<open>addState('123')\<close> returns and the state
  \<open>123\<close> is registered.
\<close>

theorem addState_invalid_name_counterexample:
  "\<not> spec_identifier ''123'' \<and>
   fst (addState ''123'' JUndefined Lexer) = Inr JUndefined \<and>
   registered (states (snd (addState ''123'' JUndefined Lexer))) ''123''"
  by (simp add: spec_identifier_def is_id_start_def addState_def registered_def states_get_def
      states_set_def)

text \<open>
  Claim C9, amended: \<open>addState(name, exclusive)\<close> validates nothing. For every name, one
  that fails the identifier grammar too, it raises no error, the registration checks
  accept the name afterwards, and no field of the scanner other than \<open>states\<close> changes.
  For every name other than \<open>__proto__\<close> it registers the state with that name and the
  flag \<open>!!exclusive\<close>, in place of an earlier registration of the name, and for every
  other name both the registration and the outcome of the registration check stay as
  they were.
\<close>

theorem addState_registers_any_name:
  "fst (addState nm excl lx) = Inr JUndefined \<and>
   states_truthy (states (snd (addState nm excl lx))) nm \<and>
   (snd (addState nm excl lx))\<lparr>states := states lx\<rparr> = lx \<and>
   (nm \<noteq> ''__proto__'' \<longrightarrow>
      states_get (states (snd (addState nm excl lx))) nm
        = Some \<lparr>name = nm, exclusive = truthy excl\<rparr> \<and>
      (\<forall>k. k \<noteq> nm \<longrightarrow>
         states_get (states (snd (addState nm excl lx))) k = states_get (states lx) k \<and>
         states_truthy (states (snd (addState nm excl lx))) k = states_truthy (states lx) k))"
  by (auto simp add: addState_def states_get_def states_set_def states_truthy_def
      split: option.splits)

text \<open>
  The amended claim C9 on \<open>addState('123')\<close> for a new scanner: \<open>123\<close> is registered
  and \<open>INITIAL\<close> is registered as before.
\<close>

theorem addState_registers_any_name_witness:
  "''123'' \<noteq> ''__proto__'' \<and> ''INITIAL'' \<noteq> ''123'' \<and>
   states_get (states (snd (addState ''123'' JUndefined Lexer))) ''123''
     = Some \<lparr>name = ''123'', exclusive = False\<rparr> \<and>
   states_get (states (snd (addState ''123'' JUndefined Lexer))) ''INITIAL''
     = states_get (states Lexer) ''INITIAL''"
  using addState_registers_any_name [of "''123''" JUndefined Lexer]
  by simp

text \<open>
  For the name \<open>__proto__\<close> the assignment installs the record as the prototype of
  \<open>this.states\<close>, and the registration check of another name changes: on a new scanner
  \<open>begin('exclusive')\<close> raises before \<open>addState('__proto__', true)\<close> and not after.
\<close>

lemma addState_proto_changes_checks:
  "\<not> states_truthy (states Lexer) ''exclusive'' \<and>
   states_truthy (states (snd (addState ''__proto__'' (JBool True) Lexer))) ''exclusive''"
  by (simp add: Lexer_eq addState_def states_set_def states_truthy_def object_prototype_keys_def)

text \<open>
  A call of \<open>begin\<close> or \<open>pushState\<close> that raises leaves the scanner as it was, and both
  raise for a name whose lookup in \<open>this.states\<close> is not truthy.
\<close>

lemma begin_throws_unchanged:
  "fst (begin' s lx) = Inl e \<Longrightarrow> snd (begin' s lx) = lx"
  by (auto simp add: begin'_def Let_def split: if_splits)

lemma pushState_throws_unchanged:
  "fst (pushState s lx) = Inl e \<Longrightarrow> snd (pushState s lx) = lx"
  by (auto simp add: pushState_def begin'_def Let_def split: if_splits)

lemma unknown_state_throws:
  "\<not> states_truthy (states lx) s \<Longrightarrow>
   begin' (Some s) lx = (Inl (not_registered s), lx) \<and>
   pushState s lx = (Inl (not_registered s), lx)"
  by (simp add: begin'_def pushState_def)

text \<open>
  Claim C10: for every state name that is not registered, \<open>begin\<close> and \<open>pushState\<close> raise
  an error and leave the scanner unchanged. The registration check reads
  \<open>this.states[newState]\<close> on a plain object, which also finds the properties inherited
  from \<open>Object.prototype\<close>: on a new scanner \<open>begin('constructor')\<close> raises nothing and
  makes \<open>constructor\<close> the active state, and \<open>pushState('constructor')\<close> pushes
  \<open>INITIAL\<close> as well.
\<close>

theorem begin_unregistered_failing_input:
  "\<not> registered (states Lexer) ''constructor'' \<and>
   begin' (Some ''constructor'') Lexer = (Inr JUndefined, Lexer\<lparr>state := ''constructor''\<rparr>) \<and>
   pushState ''constructor'' Lexer =
     (Inr JUndefined, Lexer\<lparr>stateStack := [''INITIAL''], state := ''constructor''\<rparr>)"
  by (simp add: Lexer_eq registered_def states_get_def begin'_def pushState_def
      states_truthy_def object_prototype_keys_def)

end
